theory Spec2Isabelle
  imports Main
begin

section \<open>JavaScript strings and values\<close>

text \<open>
  A JavaScript string is modelled as a \<open>string\<close>: a list of code units, here restricted to
  the code units below 256. A value that may be \<open>undefined\<close> is an \<open>option\<close>, with
  \<open>None\<close> for \<open>undefined\<close>.
\<close>

text \<open>\<open>String.prototype.startsWith\<close>, used by \<open>includes\<close> and \<open>split\<close>.\<close>

fun startsWith :: "string \<Rightarrow> string \<Rightarrow> bool" where
  "startsWith s [] = True"
| "startsWith [] (c # sub) = False"
| "startsWith (d # s) (c # sub) = (d = c \<and> startsWith s sub)"

text \<open>\<open>s.includes(sub)\<close>: \<open>sub\<close> occurs in \<open>s\<close> at some position (case-sensitive).\<close>

fun str_includes :: "string \<Rightarrow> string \<Rightarrow> bool" where
  "str_includes [] sub = (sub = [])"
| "str_includes (c # s) sub = (startsWith (c # s) sub \<or> str_includes s sub)"

text \<open>
  \<open>s.split(sep)\<close>: the segments of \<open>s\<close> between the occurrences of \<open>sep\<close>, found from
  left to right and not overlapping. \<open>split_from\<close> carries the segment read so far.
  An empty separator splits into single code units.
\<close>

function split_from :: "string \<Rightarrow> string \<Rightarrow> string \<Rightarrow> string list" where
  "split_from sep acc s =
     (if s = [] then [acc]
      else if sep \<noteq> [] \<and> startsWith s sep then acc # split_from sep [] (drop (length sep) s)
      else split_from sep (acc @ [hd s]) (tl s))"
  by pat_completeness auto
termination
  by (relation "measure (\<lambda>(sep, acc, s). length s)") auto

declare split_from.simps [simp del]

definition split :: "string \<Rightarrow> string \<Rightarrow> string list" where
  "split s sep = (if sep = [] then map (\<lambda>c. [c]) s else split_from sep [] s)"

text \<open>\<open>xs[i]\<close> on an array: \<open>undefined\<close> when \<open>i\<close> is out of range.\<close>

fun index :: "'a list \<Rightarrow> nat \<Rightarrow> 'a option" where
  "index [] i = None"
| "index (x # xs) 0 = Some x"
| "index (x # xs) (Suc i) = index xs i"

text \<open>
  \<open>s.trim()\<close> removes white space and line terminators from both ends. Among the code
  units below 256 these are TAB, LF, VT, FF, CR, SPACE and NBSP (U+00A0).
\<close>

definition is_space :: "char \<Rightarrow> bool" where
  "is_space c = (of_char c \<in> {9, 10, 11, 12, 13, 32, 160 :: nat})"

definition trim :: "string \<Rightarrow> string" where
  "trim s = rev (dropWhile is_space (rev (dropWhile is_space s)))"

text \<open>Truthiness of a string that may be \<open>undefined\<close>: neither \<open>undefined\<close> nor empty.\<close>

fun truthy :: "string option \<Rightarrow> bool" where
  "truthy None = False"
| "truthy (Some s) = (s \<noteq> [])"

text \<open>\<open>a || b\<close> on strings: \<open>a\<close> when it is truthy, \<open>b\<close> otherwise.\<close>

fun or_else :: "string option \<Rightarrow> string \<Rightarrow> string" where
  "or_else None d = d"
| "or_else (Some s) d = (if s = [] then d else s)"

text \<open>
  A value interpolated into a template literal or concatenated to a string:
  \<open>undefined\<close> prints as the word.
\<close>

fun to_string :: "string option \<Rightarrow> string" where
  "to_string None = ''undefined''"
| "to_string (Some s) = s"

text \<open>
  The decimal notation of an integer, as a template literal prints a number that is an
  integer (of magnitude below \<open>10^21\<close>; JavaScript prints larger ones with an exponent).
\<close>

definition digit :: "nat \<Rightarrow> char" where
  "digit d = ''0123456789'' ! (d mod 10)"

function show_nat :: "nat \<Rightarrow> string" where
  "show_nat n = (if n < 10 then [digit n] else show_nat (n div 10) @ [digit n])"
  by pat_completeness auto
termination
  by (relation "measure (\<lambda>n. n)") auto

declare show_nat.simps [simp del]

definition show_int :: "int \<Rightarrow> string" where
  "show_int i = (if i < 0 then CHR ''-'' # show_nat (nat (- i)) else show_nat (nat i))"

text \<open>\<open>parts.join(sep)\<close>.\<close>

fun join :: "string list \<Rightarrow> string \<Rightarrow> string" where
  "join [] sep = []"
| "join [x] sep = x"
| "join (x # y # xs) sep = x @ sep @ join (y # xs) sep"


section \<open>The remote service's data (package @google/genai)\<close>

text \<open>
  The fields of the response that the code reads. Every field is optional in the
  package's types.
\<close>

record blob =
  data :: "string option"
  mimeType :: "string option"

record part =
  inlineData :: "blob option"
  part_text :: "string option"

record content =
  parts :: "part list option"

record candidate =
  candidate_content :: "content option"

record response =
  candidates :: "candidate list option"

text \<open>
  The request handed to \<open>ai.models.generateContent\<close>: the model, the two content parts (the
  instruction text, the inline image) and the configuration (\<open>imageConfig.imageSize\<close>,
  when set).
\<close>

record request =
  model :: string
  request_text :: string
  request_data :: "string option"
  request_mimeType :: string
  imageSize :: "string option"

text \<open>
  A call of the service either returns a response or throws an error object, of which the
  code reads the \<open>message\<close> only.
\<close>

datatype outcome = Returns response | Throws "string option"

datatype quality = Standard | High

record GenerationResult =
  imageUrl :: "string option"
  result_text :: "string option"


section \<open>geminiService: generateStylizedImage\<close>

subsection \<open>The request\<close>

text \<open>Removing the data URL prefix (lines 403 to 405).\<close>

definition cleanBase64 :: "string \<Rightarrow> string option" where
  "cleanBase64 base64Data =
     (if str_includes base64Data ''base64,'' then index (split base64Data ''base64,'') 1
      else Some base64Data)"

text \<open>
  The guidance sentence of an influence level (lines 408 to 417). The influence is an
  integer: the slider of the form gives the multiples of 5 from 0 to 100.
\<close>

definition guidance :: "int \<Rightarrow> string" where
  "guidance influence =
     (if influence = 0 then
        ''Ignore the input image structure entirely. Composition should be determined solely by the prompt.''
      else if influence < 30 then
        ''Use the input image as a loose reference. You may significantly alter the pose and structure.''
      else if influence < 70 then
        ''Maintain the general structure and main subject placement of the input image, but adapt details to the style.''
      else
        ''Strictly adhere to the exact structure, pose, and composition of the input image. Only change the artistic rendering.'')"


text \<open>
  The instruction text (lines 420 to 438). \<open>promptParts\<close> is the array the code pushes
  to; an optional section is pushed when its field is not empty after trimming.
\<close>

definition aestheticBase :: string where
  "aestheticBase =
     ''Aesthetic: Vintage, sepia-toned, or aged photograph look with high detail and film grain.''"

definition promptParts :: "string \<Rightarrow> string \<Rightarrow> string \<Rightarrow> string list" where
  "promptParts prompt characterDescription sceneActionDescription =
     (let parts0 = [];
          parts1 = (if trim characterDescription \<noteq> []
                    then parts0 @ [''Subject Description: '' @ characterDescription @ ''.'']
                    else parts0);
          parts2 = (if trim sceneActionDescription \<noteq> []
                    then parts1 @ [''Scene & Action: '' @ sceneActionDescription @ ''.'']
                    else parts1)
      in parts2 @ [''Style & Atmosphere: '' @ prompt @ ''. '' @ aestheticBase])"

definition finalPrompt :: "string \<Rightarrow> int \<Rightarrow> string \<Rightarrow> string \<Rightarrow> string" where
  "finalPrompt prompt influence characterDescription sceneActionDescription =
     join (promptParts prompt characterDescription sceneActionDescription) ''\<newline>\<newline>''
     @ ''\<newline>\<newline>IMPORTANT INSTRUCTION: '' @ guidance influence
     @ '' (Structural Adherence: '' @ show_int influence @ ''%)''"

text \<open>The request of \<open>generateStylizedImage\<close> (lines 441 to 464).\<close>

definition build_request :: "string \<Rightarrow> string \<Rightarrow> string \<Rightarrow> int \<Rightarrow> string \<Rightarrow> string \<Rightarrow> quality \<Rightarrow> request" where
  "build_request base64Data mime prompt influence characterDescription sceneActionDescription q =
     \<lparr> model = (if q = High then ''gemini-3-pro-image-preview'' else ''gemini-2.5-flash-image''),
       request_text = finalPrompt prompt influence characterDescription sceneActionDescription,
       request_data = cleanBase64 base64Data,
       request_mimeType = mime,
       imageSize = (if q = High then Some ''2K'' else None) \<rparr>"

subsection \<open>The response\<close>

text \<open>
  The loop over the parts of the first candidate (lines 472 to 480). The state is the pair
  of the variables \<open>imageUrl\<close> and \<open>textResponse\<close>. An object is truthy, so the first
  branch is taken by every part that has an \<open>inlineData\<close>; the second by a part without
  one whose text is neither \<open>undefined\<close> nor empty.
\<close>

definition data_url :: "blob \<Rightarrow> string" where
  "data_url b = ''data:'' @ or_else (mimeType b) ''image/png'' @ '';base64,'' @ to_string (data b)"

fun scan_part :: "string option \<times> string option \<Rightarrow> part \<Rightarrow> string option \<times> string option" where
  "scan_part (url, txt) p =
     (case inlineData p of
        Some b \<Rightarrow> (Some (data_url b), txt)
      | None \<Rightarrow> if truthy (part_text p) then (url, part_text p) else (url, txt))"

fun scan_parts :: "string option \<times> string option \<Rightarrow> part list \<Rightarrow> string option \<times> string option" where
  "scan_parts st [] = st"
| "scan_parts st (p # ps) = scan_parts (scan_part st p) ps"

text \<open>
  The parts the loop runs over (lines 469 to 471): those of the first candidate, when the
  response has candidates, the first has a content and the content has parts.
\<close>

definition first_parts :: "response \<Rightarrow> part list" where
  "first_parts r =
     (case candidates r of
        None \<Rightarrow> []
      | Some [] \<Rightarrow> []
      | Some (c # cs) \<Rightarrow>
          (case candidate_content c of
             None \<Rightarrow> []
           | Some ct \<Rightarrow> (case parts ct of None \<Rightarrow> [] | Some ps \<Rightarrow> ps)))"

text \<open>
  Lines 466 to 491: the result, or the message of the error thrown inside the
  \<open>try\<close> block (\<open>Inl\<close>).
\<close>

definition interpret_response :: "response \<Rightarrow> string option + GenerationResult" where
  "interpret_response r =
     (case scan_parts (None, None) (first_parts r) of
        (url, txt) \<Rightarrow>
          if \<not> truthy url then
            (if truthy txt
             then Inl (Some (''Model declined to generate image: '' @ to_string txt))
             else Inl (Some ''The model returned an empty response. Please try a different prompt or image.''))
          else Inr \<lparr> imageUrl = url, result_text = txt \<rparr>)"

subsection \<open>The \<open>catch\<close> block\<close>

text \<open>
  Lines 496 to 513: the message of the error that \<open>generateStylizedImage\<close> throws, from
  the message of the error caught. Every error thrown inside the \<open>try\<close> block comes
  here: the service's and the function's own.
\<close>

definition entity_not_found :: string where
  "entity_not_found = ''Requested entity was not found''"

definition classify :: "string option \<Rightarrow> string" where
  "classify error_message =
     (let message = or_else error_message ''An unknown error occurred.'' in
      if str_includes message entity_not_found then ''Requested entity was not found.''
      else if str_includes message ''403'' \<or> str_includes message ''API key'' then
        ''Invalid or missing API Key. Please check your .env file.''
      else if str_includes message ''400'' then
        ''The request was invalid. The image might be too large or the prompt flagged.''
      else if str_includes message ''503'' \<or> str_includes message ''Overloaded'' then
        ''The service is currently overloaded. Please try again in a moment.''
      else if str_includes message ''SAFETY'' then
        ''Generation blocked by safety filters. Please adjust your prompt or image.''
      else message)"

subsection \<open>The function\<close>

text \<open>
  \<open>generateStylizedImage\<close>, with the environment's \<open>process.env.API_KEY\<close> and the remote
  service as parameters: \<open>service key req\<close> is what \<open>generateContent\<close> does with the
  request on a client made with the key. The value is the pair of the function's outcome
  (\<open>Inl\<close> the message of the error it throws) and the list of the requests it has sent.
\<close>

definition missing_key :: string where
  "missing_key = ''API Key is missing. Please configure it in your .env file.''"

definition try_generate ::
  "string option \<Rightarrow> (string \<Rightarrow> request \<Rightarrow> outcome) \<Rightarrow> string \<Rightarrow> string \<Rightarrow> string \<Rightarrow> int \<Rightarrow> string \<Rightarrow> string
     \<Rightarrow> quality \<Rightarrow> (string option + GenerationResult) \<times> request list" where
  "try_generate apiKey service base64Data mime prompt influence characterDescription sceneActionDescription q =
     (if \<not> truthy apiKey then (Inl (Some missing_key), [])
      else
        let req = build_request base64Data mime prompt influence characterDescription sceneActionDescription q
        in case service (to_string apiKey) req of
             Throws e \<Rightarrow> (Inl e, [req])
           | Returns r \<Rightarrow> (interpret_response r, [req]))"

definition generateStylizedImage ::
  "string option \<Rightarrow> (string \<Rightarrow> request \<Rightarrow> outcome) \<Rightarrow> string \<Rightarrow> string \<Rightarrow> string \<Rightarrow> int \<Rightarrow> string \<Rightarrow> string
     \<Rightarrow> quality \<Rightarrow> (string + GenerationResult) \<times> request list" where
  "generateStylizedImage apiKey service base64Data mime prompt influence characterDescription sceneActionDescription q =
     (case try_generate apiKey service base64Data mime prompt influence characterDescription sceneActionDescription q of
        (Inl e, sent) \<Rightarrow> (Inl (classify e), sent)
      | (Inr res, sent) \<Rightarrow> (Inr res, sent))"


section \<open>geminiService: removeBackground\<close>

text \<open>The loop of lines 550 to 556: only the parts with an \<open>inlineData\<close> are read.\<close>

fun scan_images :: "string option \<Rightarrow> part list \<Rightarrow> string option" where
  "scan_images url [] = url"
| "scan_images url (p # ps) =
     scan_images (case inlineData p of Some b \<Rightarrow> Some (data_url b) | None \<Rightarrow> url) ps"

text \<open>The \<open>catch\<close> block (lines 561 to 566).\<close>

definition wrap_error :: "string option \<Rightarrow> string" where
  "wrap_error error_message =
     (if truthy error_message \<and> str_includes (to_string error_message) entity_not_found
      then ''Requested entity was not found.''
      else ''Background removal failed: '' @ to_string error_message)"

definition background_prompt :: string where
  "background_prompt =
     ''Remove the background from this image. Keep the main subject exactly as is, but place it on a solid white background.''"

text \<open>
  The function (lines 520 to 567), with the same parameters and value as
  \<open>generateStylizedImage\<close>. The check of the key stands before the \<open>try\<close> block: its
  error is thrown as it is. \<open>background_request\<close> is the request of lines 534 to 547.
\<close>

definition background_request :: "string \<Rightarrow> string \<Rightarrow> request" where
  "background_request base64Data mime =
     \<lparr> model = ''gemini-2.5-flash-image'', request_text = background_prompt,
       request_data = cleanBase64 base64Data, request_mimeType = mime, imageSize = None \<rparr>"

definition removeBackground ::
  "string option \<Rightarrow> (string \<Rightarrow> request \<Rightarrow> outcome) \<Rightarrow> string \<Rightarrow> string
     \<Rightarrow> (string + GenerationResult) \<times> request list" where
  "removeBackground apiKey service base64Data mime =
     (if \<not> truthy apiKey then (Inl missing_key, [])
      else
        let req = background_request base64Data mime
        in case service (to_string apiKey) req of
             Throws e \<Rightarrow> (Inl (wrap_error e), [req])
           | Returns r \<Rightarrow>
               (let url = scan_images None (first_parts r) in
                if \<not> truthy url then (Inl (wrap_error (Some ''Failed to remove background.'')), [req])
                else (Inr \<lparr> imageUrl = url, result_text = None \<rparr>, [req])))"


section \<open>App: the history of generated images\<close>

record GeneratedImage =
  image_id :: string
  image_url :: string
  timestamp :: int
  promptUsed :: string

text \<open>The update of line 123: \<open>[newImage, ...prev].slice(0, 4)\<close>.\<close>

definition add_image :: "GeneratedImage \<Rightarrow> GeneratedImage list \<Rightarrow> GeneratedImage list" where
  "add_image newImage prev = take 4 (newImage # prev)"

text \<open>
  Lines 115 to 125 of \<open>handleGenerate\<close>, after a call that returned \<open>genResult\<close>: the
  history changes when the result has an image. \<open>now1\<close> and \<open>now2\<close> are the values of
  the two calls of \<open>Date.now()\<close>, for the id and for the timestamp.
\<close>

definition record_result ::
  "int \<Rightarrow> int \<Rightarrow> string \<Rightarrow> GenerationResult \<Rightarrow> GeneratedImage list \<Rightarrow> GeneratedImage list" where
  "record_result now1 now2 prompt genResult prev =
     (if truthy (imageUrl genResult)
      then add_image \<lparr> image_id = show_int now1, image_url = to_string (imageUrl genResult),
                       timestamp = now2, promptUsed = prompt \<rparr> prev
      else prev)"



section \<open>Notions of the specification\<close>

text \<open>The four guidance sentences, by the names of their bands.\<close>

definition ignore_structure :: string where
  "ignore_structure =
     ''Ignore the input image structure entirely. Composition should be determined solely by the prompt.''"

definition loose_reference :: string where
  "loose_reference =
     ''Use the input image as a loose reference. You may significantly alter the pose and structure.''"

definition general_structure :: string where
  "general_structure =
     ''Maintain the general structure and main subject placement of the input image, but adapt details to the style.''"

definition strict_adherence :: string where
  "strict_adherence =
     ''Strictly adhere to the exact structure, pose, and composition of the input image. Only change the artistic rendering.''"

text \<open>
  The parts of a response by the branch of the loop they take: an image part has an
  \<open>inlineData\<close>; a text part has none and a text that is neither \<open>undefined\<close> nor
  empty. A part with an \<open>inlineData\<close> and a text is an image part; a part with neither,
  or with an empty text only, is of neither kind and the loop passes over it.
\<close>

definition is_image_part :: "part \<Rightarrow> bool" where
  "is_image_part p = (inlineData p \<noteq> None)"

definition is_text_part :: "part \<Rightarrow> bool" where
  "is_text_part p = (inlineData p = None \<and> truthy (part_text p))"

text \<open>
  A part that is a text payload, whatever the text: it has no \<open>inlineData\<close> and a text
  that is not \<open>undefined\<close>, be it empty.
\<close>

definition has_text_payload :: "part \<Rightarrow> bool" where
  "has_text_payload p = (inlineData p = None \<and> part_text p \<noteq> None)"

text \<open>The data URL of a part's image, when it has one.\<close>

definition part_url :: "part \<Rightarrow> string option" where
  "part_url p = map_option data_url (inlineData p)"

text \<open>The last element of a list, when it has one.\<close>

definition last_opt :: "'a list \<Rightarrow> 'a option" where
  "last_opt xs = (if xs = [] then None else Some (last xs))"


text \<open>The messages of the failures, by the names of their kinds.\<close>

definition entity_not_found_message :: string where
  "entity_not_found_message = ''Requested entity was not found.''"

definition invalid_api_key :: string where
  "invalid_api_key = ''Invalid or missing API Key. Please check your .env file.''"

definition invalid_request :: string where
  "invalid_request = ''The request was invalid. The image might be too large or the prompt flagged.''"

definition service_overloaded :: string where
  "service_overloaded = ''The service is currently overloaded. Please try again in a moment.''"

definition safety_blocked :: string where
  "safety_blocked = ''Generation blocked by safety filters. Please adjust your prompt or image.''"

definition unknown_error :: string where
  "unknown_error = ''An unknown error occurred.''"

definition empty_response :: string where
  "empty_response = ''The model returned an empty response. Please try a different prompt or image.''"

definition model_declined :: "string \<Rightarrow> string" where
  "model_declined reason = ''Model declined to generate image: '' @ reason"

text \<open>A message has a marker when one of the substring checks of the \<open>catch\<close> block finds it.\<close>

definition has_marker :: "string \<Rightarrow> bool" where
  "has_marker m =
     (str_includes m ''Requested entity was not found'' \<or> str_includes m ''403''
      \<or> str_includes m ''API key'' \<or> str_includes m ''400'' \<or> str_includes m ''503''
      \<or> str_includes m ''Overloaded'' \<or> str_includes m ''SAFETY'')"

text \<open>A response whose first candidate has one part, a text.\<close>

definition text_response :: "string \<Rightarrow> response" where
  "text_response t =
     \<lparr>candidates = Some [\<lparr>candidate_content =
        Some \<lparr>parts = Some [\<lparr>inlineData = None, part_text = Some t\<rparr>]\<rparr>\<rparr>]\<rparr>"


text \<open>A part with an image, without its text.\<close>

definition image_only :: "part \<Rightarrow> part" where
  "image_only p = (if inlineData p \<noteq> None then p\<lparr>part_text := None\<rparr> else p)"

text \<open>
  A generation that \<open>handleGenerate\<close> records: the two readings of the clock, the prompt
  and the result of the call. It is successful when the result has an image.
  \<open>new_image\<close> is the entry of lines 116 to 121, and \<open>record_all\<close> the history after a
  sequence of generations.
\<close>

record generation =
  id_time :: int
  stamp_time :: int
  prompt_at :: string
  genResult :: GenerationResult

definition successful :: "generation \<Rightarrow> bool" where
  "successful g = truthy (imageUrl (genResult g))"

definition new_image :: "generation \<Rightarrow> GeneratedImage" where
  "new_image g =
     \<lparr> image_id = show_int (id_time g), image_url = to_string (imageUrl (genResult g)),
       timestamp = stamp_time g, promptUsed = prompt_at g \<rparr>"

fun record_all :: "GeneratedImage list \<Rightarrow> generation list \<Rightarrow> GeneratedImage list" where
  "record_all prev [] = prev"
| "record_all prev (g # gens) =
     record_all (record_result (id_time g) (stamp_time g) (prompt_at g) (genResult g) prev) gens"


text \<open>
  A payload in base64: every code unit is of the base64 alphabet or the padding sign. The
  stub service of the round trip answers with one part, the inline image of the request as
  it was sent.
\<close>

definition base64_char :: "char \<Rightarrow> bool" where
  "base64_char c =
     (c \<in> set ''ABCDEFGHIJKLMNOPQRSTUVWXYZabcdefghijklmnopqrstuvwxyz0123456789+/='')"

definition is_base64 :: "string \<Rightarrow> bool" where
  "is_base64 s = list_all base64_char s"

definition echo_service :: "string \<Rightarrow> request \<Rightarrow> outcome" where
  "echo_service key req =
     Returns \<lparr>candidates = Some [\<lparr>candidate_content = Some \<lparr>parts = Some
       [\<lparr>inlineData = Some \<lparr>data = request_data req, mimeType = Some (request_mimeType req)\<rparr>,
         part_text = None\<rparr>]\<rparr>\<rparr>]\<rparr>"


section \<open>The guidance bands\<close>

text \<open>
  Claim C1. For every integer influence from 0 to 100 the guidance sentence is that of its
  band: 0 gives the sentence that ignores the structure of the input image; above 0 and
  below 30, the loose reference; from 30 and below 70, the general structure; from 70 on,
  the strict adherence. The four sentences are different, so exactly one is selected. At
  0, 29, 30, 69, 70 and 100 the sentences are those of the first, second, third, third,
  fourth and fourth band.
\<close>

theorem guidance_bands:
  assumes "0 \<le> influence" and "influence \<le> 100"
  shows "(influence = 0 \<longrightarrow> guidance influence = ignore_structure)
       \<and> (0 < influence \<and> influence < 30 \<longrightarrow> guidance influence = loose_reference)
       \<and> (30 \<le> influence \<and> influence < 70 \<longrightarrow> guidance influence = general_structure)
       \<and> (70 \<le> influence \<longrightarrow> guidance influence = strict_adherence)
       \<and> distinct [ignore_structure, loose_reference, general_structure, strict_adherence]
       \<and> map guidance [0, 29, 30, 69, 70, 100]
           = [ignore_structure, loose_reference, general_structure, general_structure,
              strict_adherence, strict_adherence]"
  using assms
  by (simp add: guidance_def ignore_structure_def loose_reference_def general_structure_def
      strict_adherence_def)

theorem guidance_bands_witness:
  "guidance 0 = ignore_structure \<and> guidance 29 = loose_reference
   \<and> guidance 30 = general_structure \<and> guidance 70 = strict_adherence"
  using guidance_bands [of 0] guidance_bands [of 29] guidance_bands [of 30] guidance_bands [of 70]
  by simp


section \<open>The instruction text\<close>

text \<open>
  Claim C2. The instruction text of the request is, in this order: the section of the
  character description, present exactly when the description is not empty after trimming;
  the section of the scene and action, present exactly when that field is not empty after
  trimming; the style section, made of the prompt and the fixed sentence on the vintage
  aesthetic; and the guidance sentence with the influence printed as a percentage. An empty
  optional field leaves nothing behind: with an empty character description and a scene
  that is not empty, the text starts with the scene section.
\<close>

theorem finalPrompt_sections:
  "request_text (build_request base64Data mime prompt influence characterDescription sceneAction q) =
     (if trim characterDescription \<noteq> []
      then ''Subject Description: '' @ characterDescription @ ''.\<newline>\<newline>'' else [])
     @ (if trim sceneAction \<noteq> []
        then ''Scene & Action: '' @ sceneAction @ ''.\<newline>\<newline>'' else [])
     @ ''Style & Atmosphere: '' @ prompt @ ''. '' @ aestheticBase
     @ ''\<newline>\<newline>IMPORTANT INSTRUCTION: '' @ guidance influence
     @ '' (Structural Adherence: '' @ show_int influence @ ''%)''
   \<and> (trim characterDescription = [] \<and> trim sceneAction \<noteq> [] \<longrightarrow>
        finalPrompt prompt influence characterDescription sceneAction =
          ''Scene & Action: '' @ sceneAction @ ''.\<newline>\<newline>''
          @ ''Style & Atmosphere: '' @ prompt @ ''. '' @ aestheticBase
          @ ''\<newline>\<newline>IMPORTANT INSTRUCTION: '' @ guidance influence
          @ '' (Structural Adherence: '' @ show_int influence @ ''%)'')"
  by (simp add: build_request_def finalPrompt_def promptParts_def)

theorem finalPrompt_sections_witness:
  "finalPrompt ''Soft watercolor'' 30 [] ''Reading a book'' =
     ''Scene & Action: Reading a book.\<newline>\<newline>Style & Atmosphere: Soft watercolor. Aesthetic: Vintage, sepia-toned, or aged photograph look with high detail and film grain.\<newline>\<newline>IMPORTANT INSTRUCTION: Maintain the general structure and main subject placement of the input image, but adapt details to the style. (Structural Adherence: 30%)''"
  using finalPrompt_sections [of "[]" "[]" "''Soft watercolor''" 30 "[]" "''Reading a book''" Standard]
  by (simp add: trim_def is_space_def guidance_def show_int_def show_nat.simps digit_def
      aestheticBase_def)


section \<open>The scan of the response\<close>

lemma scan_parts_snoc: "scan_parts st (ps @ [p]) = scan_part (scan_parts st ps) p"
  by (induction ps arbitrary: st) simp_all

lemma scan_parts_image:
  "fst (scan_parts st ps) =
     (case last_opt (filter is_image_part ps) of None \<Rightarrow> fst st | Some p \<Rightarrow> part_url p)"
proof (induction ps rule: rev_induct)
  case Nil
  show ?case by (simp add: last_opt_def)
next
  case (snoc p ps)
  obtain u t where st: "scan_parts st ps = (u, t)" by (cases "scan_parts st ps")
  show ?case
    using snoc st
    by (auto simp: scan_parts_snoc last_opt_def is_image_part_def part_url_def split: option.splits)
qed

lemma scan_parts_text:
  "snd (scan_parts st ps) =
     (case last_opt (filter is_text_part ps) of None \<Rightarrow> snd st | Some p \<Rightarrow> part_text p)"
proof (induction ps rule: rev_induct)
  case Nil
  show ?case by (simp add: last_opt_def)
next
  case (snoc p ps)
  obtain u t where st: "scan_parts st ps = (u, t)" by (cases "scan_parts st ps")
  show ?case
    using snoc st
    by (auto simp: scan_parts_snoc last_opt_def is_text_part_def split: option.splits)
qed

text \<open>What the \<open>try\<close> block returns for a response in which the scan finds an image.\<close>

lemma interpret_with_image:
  assumes "filter is_image_part (first_parts r) \<noteq> []"
  shows "interpret_response r =
     Inr \<lparr>imageUrl = part_url (last (filter is_image_part (first_parts r))),
          result_text = Option.bind (last_opt (filter is_text_part (first_parts r))) part_text\<rparr>"
proof -
  obtain u t where st: "scan_parts (None, None) (first_parts r) = (u, t)"
    by (cases "scan_parts (None, None) (first_parts r)")
  have u: "u = part_url (last (filter is_image_part (first_parts r)))"
    using scan_parts_image [of "(None, None)" "first_parts r"] assms st by (simp add: last_opt_def)
  have t: "t = Option.bind (last_opt (filter is_text_part (first_parts r))) part_text"
    using scan_parts_text [of "(None, None)" "first_parts r"] st by (simp split: option.splits)
  have "last (filter is_image_part (first_parts r)) \<in> set (filter is_image_part (first_parts r))"
    using assms by (rule last_in_set)
  then have "inlineData (last (filter is_image_part (first_parts r))) \<noteq> None"
    by (simp add: is_image_part_def)
  then have "truthy u"
    by (auto simp: u part_url_def data_url_def)
  then show ?thesis
    by (simp add: interpret_response_def st u [symmetric] t [symmetric])
qed

text \<open>
  Claim C3, as stated, fails when the last text payload of the first candidate is empty:
  after a part with the text A and a part with the empty text, the text recorded is A, not
  that of the last part.
\<close>

theorem scan_counterexample:
  "\<not> (\<forall>ps. snd (scan_parts (None, None) ps)
          = Option.bind (last_opt (filter has_text_payload ps)) part_text)"
proof
  assume "\<forall>ps. snd (scan_parts (None, None) ps)
          = Option.bind (last_opt (filter has_text_payload ps)) part_text"
  then have "snd (scan_parts (None, None)
                [\<lparr>inlineData = None, part_text = Some ''A''\<rparr>, \<lparr>inlineData = None, part_text = Some []\<rparr>])
      = Option.bind (last_opt (filter has_text_payload
                [\<lparr>inlineData = None, part_text = Some ''A''\<rparr>, \<lparr>inlineData = None, part_text = Some []\<rparr>]))
          part_text"
    by (rule spec)
  then show False by (simp add: last_opt_def has_text_payload_def)
qed

text \<open>
  Claim C3, amended. Of a response only the first candidate is read: the candidates after
  it do not change the outcome. The scan of its parts leaves in \<open>imageUrl\<close> the image of
  the last image part (a later image part overwrites an earlier one) and in
  \<open>textResponse\<close> the text of the last part that has no \<open>inlineData\<close> and a text that
  is not empty; each is \<open>undefined\<close> when there is no such part. When the first candidate
  has an image part, the result returned, by the scan and by \<open>generateStylizedImage\<close>,
  carries that image and that text. With two image parts the image chosen is the second.
\<close>

theorem scan_last_wins:
  "fst (scan_parts (None, None) ps) = Option.bind (last_opt (filter is_image_part ps)) part_url
   \<and> snd (scan_parts (None, None) ps) = Option.bind (last_opt (filter is_text_part ps)) part_text
   \<and> interpret_response (r\<lparr>candidates := Some (c # cs)\<rparr>)
       = interpret_response (r\<lparr>candidates := Some [c]\<rparr>)
   \<and> (filter is_image_part (first_parts r) \<noteq> [] \<longrightarrow>
        interpret_response r =
          Inr \<lparr>imageUrl = part_url (last (filter is_image_part (first_parts r))),
               result_text = Option.bind (last_opt (filter is_text_part (first_parts r))) part_text\<rparr>)
   \<and> (truthy apiKey
        \<and> service (to_string apiKey)
             (build_request base64Data mime prompt influence characterDescription sceneAction q) = Returns r
        \<and> filter is_image_part (first_parts r) \<noteq> [] \<longrightarrow>
        fst (generateStylizedImage apiKey service base64Data mime prompt influence
               characterDescription sceneAction q) =
          Inr \<lparr>imageUrl = part_url (last (filter is_image_part (first_parts r))),
               result_text = Option.bind (last_opt (filter is_text_part (first_parts r))) part_text\<rparr>)
   \<and> interpret_response
         \<lparr>candidates = Some (\<lparr>candidate_content = Some \<lparr>parts = Some
            [\<lparr>inlineData = Some b1, part_text = t1\<rparr>, \<lparr>inlineData = Some b2, part_text = t2\<rparr>]\<rparr>\<rparr> # cs)\<rparr>
       = Inr \<lparr>imageUrl = Some (data_url b2), result_text = None\<rparr>"
proof -
  have a: "fst (scan_parts (None, None) ps) = Option.bind (last_opt (filter is_image_part ps)) part_url"
    by (simp add: scan_parts_image split: option.splits)
  have b: "snd (scan_parts (None, None) ps) = Option.bind (last_opt (filter is_text_part ps)) part_text"
    by (simp add: scan_parts_text split: option.splits)
  have c: "interpret_response (r\<lparr>candidates := Some (c # cs)\<rparr>)
       = interpret_response (r\<lparr>candidates := Some [c]\<rparr>)"
    by (simp add: interpret_response_def first_parts_def)
  have d: "fst (generateStylizedImage apiKey service base64Data mime prompt influence
               characterDescription sceneAction q) =
          Inr \<lparr>imageUrl = part_url (last (filter is_image_part (first_parts r))),
               result_text = Option.bind (last_opt (filter is_text_part (first_parts r))) part_text\<rparr>"
    if "truthy apiKey"
      and "service (to_string apiKey)
             (build_request base64Data mime prompt influence characterDescription sceneAction q) = Returns r"
      and "filter is_image_part (first_parts r) \<noteq> []"
    using that by (simp add: generateStylizedImage_def try_generate_def interpret_with_image)
  have e: "interpret_response
         \<lparr>candidates = Some (\<lparr>candidate_content = Some \<lparr>parts = Some
            [\<lparr>inlineData = Some b1, part_text = t1\<rparr>, \<lparr>inlineData = Some b2, part_text = t2\<rparr>]\<rparr>\<rparr> # cs)\<rparr>
       = Inr \<lparr>imageUrl = Some (data_url b2), result_text = None\<rparr>"
    by (simp add: interpret_response_def first_parts_def data_url_def)
  show ?thesis
    using a b c d e interpret_with_image [of r] by blast
qed

theorem scan_last_wins_witness:
  "fst (generateStylizedImage (Some ''key'')
          (\<lambda>k req. Returns \<lparr>candidates = Some [\<lparr>candidate_content = Some \<lparr>parts = Some
             [\<lparr>inlineData = None, part_text = Some ''hello''\<rparr>,
              \<lparr>inlineData = Some \<lparr>data = Some ''AAAA'', mimeType = Some ''image/png''\<rparr>, part_text = None\<rparr>,
              \<lparr>inlineData = Some \<lparr>data = Some ''BBBB'', mimeType = Some ''image/jpeg''\<rparr>, part_text = None\<rparr>,
              \<lparr>inlineData = None, part_text = Some []\<rparr>]\<rparr>\<rparr>]\<rparr>)
          ''AAAA'' ''image/png'' ''Soft'' 50 [] [] Standard)
     = Inr \<lparr>imageUrl = Some ''data:image/jpeg;base64,BBBB'', result_text = Some ''hello''\<rparr>"
  using scan_last_wins [where
      r = "\<lparr>candidates = Some [\<lparr>candidate_content = Some \<lparr>parts = Some
             [\<lparr>inlineData = None, part_text = Some ''hello''\<rparr>,
              \<lparr>inlineData = Some \<lparr>data = Some ''AAAA'', mimeType = Some ''image/png''\<rparr>, part_text = None\<rparr>,
              \<lparr>inlineData = Some \<lparr>data = Some ''BBBB'', mimeType = Some ''image/jpeg''\<rparr>, part_text = None\<rparr>,
              \<lparr>inlineData = None, part_text = Some []\<rparr>]\<rparr>\<rparr>]\<rparr>"
      and apiKey = "Some ''key''"
      and service = "\<lambda>k req. Returns \<lparr>candidates = Some [\<lparr>candidate_content = Some \<lparr>parts = Some
             [\<lparr>inlineData = None, part_text = Some ''hello''\<rparr>,
              \<lparr>inlineData = Some \<lparr>data = Some ''AAAA'', mimeType = Some ''image/png''\<rparr>, part_text = None\<rparr>,
              \<lparr>inlineData = Some \<lparr>data = Some ''BBBB'', mimeType = Some ''image/jpeg''\<rparr>, part_text = None\<rparr>,
              \<lparr>inlineData = None, part_text = Some []\<rparr>]\<rparr>\<rparr>]\<rparr>"
      and base64Data = "''AAAA''" and mime = "''image/png''" and prompt = "''Soft''" and influence = 50
      and characterDescription = "[]" and sceneAction = "[]" and q = Standard]
  by (simp add: first_parts_def is_image_part_def is_text_part_def last_opt_def part_url_def data_url_def)


lemma last_opt_in_set: "last_opt xs = Some x \<Longrightarrow> x \<in> set xs"
  by (auto simp: last_opt_def split: if_splits)


section \<open>Failures of generateStylizedImage\<close>

lemma generate_throws:
  assumes "truthy apiKey"
    and "service (to_string apiKey)
           (build_request base64Data mime prompt influence characterDescription sceneAction q) = Throws e"
  shows "fst (generateStylizedImage apiKey service base64Data mime prompt influence
                characterDescription sceneAction q) = Inl (classify e)"
  using assms by (simp add: generateStylizedImage_def try_generate_def)

lemma generate_returns:
  assumes "truthy apiKey"
    and "service (to_string apiKey)
           (build_request base64Data mime prompt influence characterDescription sceneAction q) = Returns r"
  shows "fst (generateStylizedImage apiKey service base64Data mime prompt influence
                characterDescription sceneAction q)
         = (case interpret_response r of Inl e \<Rightarrow> Inl (classify e) | Inr res \<Rightarrow> Inr res)"
  using assms by (simp add: generateStylizedImage_def try_generate_def split: sum.splits)

lemma classify_default: "\<not> truthy e \<Longrightarrow> classify e = ''An unknown error occurred.''"
  by (cases e) (simp_all add: classify_def entity_not_found_def)

lemma classify_unmarked: "m \<noteq> [] \<Longrightarrow> \<not> has_marker m \<Longrightarrow> classify (Some m) = m"
  by (simp add: classify_def has_marker_def entity_not_found_def)

lemma classify_empty_response: "classify (Some empty_response) = empty_response"
  by (simp add: classify_def empty_response_def entity_not_found_def)

lemma classify_missing_key: "classify (Some missing_key) = missing_key"
  by (simp add: classify_def missing_key_def entity_not_found_def)

text \<open>What the \<open>try\<close> block throws for a response in which the scan finds no image.\<close>

lemma interpret_no_image:
  assumes "filter is_image_part (first_parts r) = []"
  shows "interpret_response r =
     (case last_opt (filter is_text_part (first_parts r)) of
        None \<Rightarrow> Inl (Some empty_response)
      | Some p \<Rightarrow> Inl (Some (model_declined (to_string (part_text p)))))"
proof -
  obtain u t where st: "scan_parts (None, None) (first_parts r) = (u, t)"
    by (cases "scan_parts (None, None) (first_parts r)")
  have u: "u = None"
    using scan_parts_image [of "(None, None)" "first_parts r"] assms st by (simp add: last_opt_def)
  have t: "t = (case last_opt (filter is_text_part (first_parts r)) of
                  None \<Rightarrow> None | Some p \<Rightarrow> part_text p)"
    using scan_parts_text [of "(None, None)" "first_parts r"] st by (simp split: option.splits)
  have tp: "truthy (part_text p)" if "last_opt (filter is_text_part (first_parts r)) = Some p" for p
  proof -
    from that have "p \<in> set (filter is_text_part (first_parts r))"
      by (rule last_opt_in_set)
    then show ?thesis by (simp add: is_text_part_def)
  qed
  show ?thesis
    using tp
    by (auto simp: interpret_response_def st u t empty_response_def model_declined_def
        split: option.splits)
qed

text \<open>
  Claim C7. When the key of the configuration is absent (\<open>undefined\<close> or empty), both
  \<open>generateStylizedImage\<close> and \<open>removeBackground\<close> fail with the message of the missing
  key, whatever the service would do, and the list of the requests sent is empty.
\<close>

theorem missing_key_no_call:
  assumes "apiKey = None \<or> apiKey = Some []"
  shows "generateStylizedImage apiKey service base64Data mime prompt influence characterDescription
           sceneAction q
           = (Inl ''API Key is missing. Please configure it in your .env file.'', [])
       \<and> removeBackground apiKey service base64Data mime
           = (Inl ''API Key is missing. Please configure it in your .env file.'', [])"
  using assms classify_missing_key
  by (auto simp: generateStylizedImage_def try_generate_def removeBackground_def missing_key_def)

theorem missing_key_no_call_witness:
  "generateStylizedImage None (\<lambda>k req. Throws (Some ''403'')) ''AAAA'' ''image/png'' ''Soft'' 50 [] []
     Standard
     = (Inl ''API Key is missing. Please configure it in your .env file.'', [])
   \<and> removeBackground (Some []) (\<lambda>k req. Throws (Some ''403'')) ''AAAA'' ''image/png''
     = (Inl ''API Key is missing. Please configure it in your .env file.'', [])"
  using missing_key_no_call [of None] missing_key_no_call [of "Some []"]
  by simp

text \<open>
  Claim C5, as stated, fails for an error with an empty message: it has none of the
  markers, and the message thrown is not the empty one.
\<close>

theorem classify_counterexample:
  "\<not> (\<forall>m. \<not> str_includes m ''Requested entity was not found'' \<and> \<not> str_includes m ''403''
        \<and> \<not> str_includes m ''API key'' \<and> \<not> str_includes m ''400'' \<and> \<not> str_includes m ''503''
        \<and> \<not> str_includes m ''Overloaded'' \<and> \<not> str_includes m ''SAFETY''
        \<longrightarrow> classify (Some m) = m)"
proof
  assume "\<forall>m. \<not> str_includes m ''Requested entity was not found'' \<and> \<not> str_includes m ''403''
        \<and> \<not> str_includes m ''API key'' \<and> \<not> str_includes m ''400'' \<and> \<not> str_includes m ''503''
        \<and> \<not> str_includes m ''Overloaded'' \<and> \<not> str_includes m ''SAFETY''
        \<longrightarrow> classify (Some m) = m"
  then have "classify (Some []) = []" by simp
  then show False by (simp add: classify_default)
qed

text \<open>
  Claim C5, amended. When the service throws an error, \<open>generateStylizedImage\<close> throws a
  message chosen from the error's message by substring checks in this order: the marker of
  the entity that was not found gives the sentence of that marker, before every other
  check; then 403 or the words API key give the message of the invalid key; then 400, that
  of the invalid request; then 503 or Overloaded, that of the overloaded service; then
  SAFETY, that of the safety filters; a message that is not empty and has none of these is
  thrown unchanged. An error whose message is \<open>undefined\<close> or empty gives the message of
  the unknown error.
\<close>

theorem transport_error_classified:
  assumes "truthy apiKey"
    and "service (to_string apiKey)
           (build_request base64Data mime prompt influence characterDescription sceneAction q) = Throws e"
    and "res = fst (generateStylizedImage apiKey service base64Data mime prompt influence
                characterDescription sceneAction q)"
    and "m = to_string e"
  shows "(truthy e \<and> str_includes m ''Requested entity was not found'' \<longrightarrow>
            res = Inl entity_not_found_message)
       \<and> (truthy e \<and> \<not> str_includes m ''Requested entity was not found''
            \<and> (str_includes m ''403'' \<or> str_includes m ''API key'') \<longrightarrow> res = Inl invalid_api_key)
       \<and> (truthy e \<and> \<not> str_includes m ''Requested entity was not found''
            \<and> \<not> str_includes m ''403'' \<and> \<not> str_includes m ''API key''
            \<and> str_includes m ''400'' \<longrightarrow> res = Inl invalid_request)
       \<and> (truthy e \<and> \<not> str_includes m ''Requested entity was not found''
            \<and> \<not> str_includes m ''403'' \<and> \<not> str_includes m ''API key'' \<and> \<not> str_includes m ''400''
            \<and> (str_includes m ''503'' \<or> str_includes m ''Overloaded'') \<longrightarrow> res = Inl service_overloaded)
       \<and> (truthy e \<and> \<not> str_includes m ''Requested entity was not found''
            \<and> \<not> str_includes m ''403'' \<and> \<not> str_includes m ''API key'' \<and> \<not> str_includes m ''400''
            \<and> \<not> str_includes m ''503'' \<and> \<not> str_includes m ''Overloaded''
            \<and> str_includes m ''SAFETY'' \<longrightarrow> res = Inl safety_blocked)
       \<and> (truthy e \<and> \<not> str_includes m ''Requested entity was not found''
            \<and> \<not> str_includes m ''403'' \<and> \<not> str_includes m ''API key'' \<and> \<not> str_includes m ''400''
            \<and> \<not> str_includes m ''503'' \<and> \<not> str_includes m ''Overloaded''
            \<and> \<not> str_includes m ''SAFETY'' \<longrightarrow> res = Inl m)
       \<and> (\<not> truthy e \<longrightarrow> res = Inl unknown_error)"
proof -
  have res: "res = Inl (classify e)"
    using assms(1,2,3) by (simp add: generate_throws)
  have dflt: "\<not> truthy e \<Longrightarrow> classify e = unknown_error"
    by (simp add: classify_default unknown_error_def)
  have msg: "truthy e \<Longrightarrow> or_else e ''An unknown error occurred.'' = m"
    using assms(4) by (cases e) simp_all
  show ?thesis
    unfolding res
    using dflt msg
    by (auto simp: classify_def entity_not_found_def entity_not_found_message_def invalid_api_key_def
        invalid_request_def service_overloaded_def safety_blocked_def Let_def)
qed

theorem transport_error_classified_witness:
  "fst (generateStylizedImage (Some ''key'') (\<lambda>k req. Throws (Some ''403: Requested entity was not found.''))
          ''AAAA'' ''image/png'' ''Soft'' 50 [] [] Standard) = Inl entity_not_found_message
   \<and> fst (generateStylizedImage (Some ''key'') (\<lambda>k req. Throws (Some ''403 Forbidden''))
          ''AAAA'' ''image/png'' ''Soft'' 50 [] [] Standard) = Inl invalid_api_key
   \<and> fst (generateStylizedImage (Some ''key'') (\<lambda>k req. Throws (Some ''Failed to fetch''))
          ''AAAA'' ''image/png'' ''Soft'' 50 [] [] Standard) = Inl ''Failed to fetch''
   \<and> fst (generateStylizedImage (Some ''key'') (\<lambda>k req. Throws None)
          ''AAAA'' ''image/png'' ''Soft'' 50 [] [] Standard) = Inl unknown_error"
  using
    transport_error_classified [of "Some ''key''" "\<lambda>k req. Throws (Some ''403: Requested entity was not found.'')"
      "''AAAA''" "''image/png''" "''Soft''" 50 "[]" "[]" Standard, OF _ refl refl refl]
    transport_error_classified [of "Some ''key''" "\<lambda>k req. Throws (Some ''403 Forbidden'')"
      "''AAAA''" "''image/png''" "''Soft''" 50 "[]" "[]" Standard, OF _ refl refl refl]
    transport_error_classified [of "Some ''key''" "\<lambda>k req. Throws (Some ''Failed to fetch'')"
      "''AAAA''" "''image/png''" "''Soft''" 50 "[]" "[]" Standard, OF _ refl refl refl]
    transport_error_classified [of "Some ''key''" "\<lambda>k req. Throws None"
      "''AAAA''" "''image/png''" "''Soft''" 50 "[]" "[]" Standard, OF _ refl refl refl]
  by simp


text \<open>
  What holds of a response without an image: when its last text part gives a message
  without a marker, that message is thrown; when it has no text part, the message of the
  empty response is thrown.
\<close>

lemma generate_declined:
  assumes "truthy apiKey"
    and "service (to_string apiKey)
           (build_request base64Data mime prompt influence characterDescription sceneAction q) = Returns r"
    and "filter is_image_part (first_parts r) = []"
    and "last_opt (filter is_text_part (first_parts r)) = Some p"
    and "\<not> has_marker (model_declined (to_string (part_text p)))"
  shows "fst (generateStylizedImage apiKey service base64Data mime prompt influence
                characterDescription sceneAction q)
         = Inl (model_declined (to_string (part_text p)))"
proof -
  have "model_declined (to_string (part_text p)) \<noteq> []"
    by (simp add: model_declined_def)
  then show ?thesis
    using assms by (simp add: generate_returns interpret_no_image classify_unmarked)
qed

lemma generate_empty:
  assumes "truthy apiKey"
    and "service (to_string apiKey)
           (build_request base64Data mime prompt influence characterDescription sceneAction q) = Returns r"
    and "filter is_image_part (first_parts r) = []"
    and "filter is_text_part (first_parts r) = []"
  shows "fst (generateStylizedImage apiKey service base64Data mime prompt influence
                characterDescription sceneAction q) = Inl empty_response"
  using assms
  by (simp add: generate_returns interpret_no_image classify_empty_response last_opt_def)

text \<open>
  Claim C4 does not hold of the code. The error that carries the model's text is thrown
  inside the \<open>try\<close> block, so the \<open>catch\<close> block reads its message, the model's words
  included: for a response whose only part is the text below, which has the digits 400,
  the message thrown is that of the invalid request and the text is lost.
\<close>

theorem model_declined_reclassified:
  "fst (generateStylizedImage (Some ''key'')
          (\<lambda>k req. Returns (text_response ''The image is 400 pixels wide, which is too small to edit.''))
          ''AAAA'' ''image/png'' ''Soft'' 50 [] [] Standard)
     = Inl ''The request was invalid. The image might be too large or the prompt flagged.''"
  by (simp add: generateStylizedImage_def try_generate_def interpret_response_def first_parts_def
      text_response_def classify_def entity_not_found_def)


section \<open>Parts with an image and a text\<close>

lemma scan_part_image_only: "scan_part st (image_only p) = scan_part st p"
  by (cases st) (auto simp: image_only_def split: option.splits)

lemma scan_parts_image_only: "scan_parts st (map image_only ps) = scan_parts st ps"
  by (induction ps arbitrary: st) (simp_all add: scan_part_image_only)

text \<open>
  Claim C10. A part with an image and a text gives the scan its image only: removing the
  text of every such part changes nothing. So when the service returns a response in which
  every text stands on a part with an image, no accompanying text is left after the scan,
  a result that is returned has none, and a result is returned as soon as one part has an
  image.
\<close>

theorem image_part_text_ignored:
  assumes "truthy apiKey"
    and "service (to_string apiKey)
           (build_request base64Data mime prompt influence characterDescription sceneAction q) = Returns r"
    and "\<forall>p \<in> set (first_parts r). part_text p \<noteq> None \<longrightarrow> inlineData p \<noteq> None"
    and "out = fst (generateStylizedImage apiKey service base64Data mime prompt influence
                characterDescription sceneAction q)"
  shows "scan_parts st (map image_only ps) = scan_parts st ps
       \<and> snd (scan_parts (None, None) (first_parts r)) = None
       \<and> (\<forall>res. out = Inr res \<longrightarrow> result_text res = None)
       \<and> ((\<exists>p \<in> set (first_parts r). inlineData p \<noteq> None) \<longrightarrow>
            (\<exists>url. out = Inr \<lparr>imageUrl = Some url, result_text = None\<rparr>))"
proof -
  obtain u t where st: "scan_parts (None, None) (first_parts r) = (u, t)"
    by (cases "scan_parts (None, None) (first_parts r)")
  have "filter is_text_part (first_parts r) = []"
    using assms(3) by (auto simp: filter_empty_conv is_text_part_def)
  then have none: "snd (scan_parts (None, None) (first_parts r)) = None"
    by (simp add: scan_parts_text last_opt_def)
  with st have t: "t = None" by simp
  have out: "out = (case interpret_response r of Inl e \<Rightarrow> Inl (classify e) | Inr res \<Rightarrow> Inr res)"
    using assms(1,2,4) by (simp add: generate_returns)
  have res: "result_text res = None" if "out = Inr res" for res
    using that unfolding out
    by (auto simp: interpret_response_def st t split: if_splits)
  have ok: "\<exists>url. out = Inr \<lparr>imageUrl = Some url, result_text = None\<rparr>"
    if b: "\<exists>p \<in> set (first_parts r). inlineData p \<noteq> None"
  proof -
    from b have ne: "filter is_image_part (first_parts r) \<noteq> []"
      by (auto simp: filter_empty_conv is_image_part_def)
    then have "last (filter is_image_part (first_parts r)) \<in> set (filter is_image_part (first_parts r))"
      by (rule last_in_set)
    then have "inlineData (last (filter is_image_part (first_parts r))) \<noteq> None"
      by (simp add: is_image_part_def)
    with ne have "\<exists>b. fst (scan_parts (None, None) (first_parts r)) = Some (data_url b)"
      by (auto simp: scan_parts_image last_opt_def part_url_def)
    with st obtain bl where u: "u = Some (data_url bl)" by auto
    have "truthy u" by (simp add: u data_url_def)
    then show ?thesis
      unfolding out by (simp add: interpret_response_def st t u)
  qed
  show ?thesis
    using none res ok by (simp add: scan_parts_image_only)
qed

theorem image_part_text_ignored_witness:
  "fst (generateStylizedImage (Some ''key'')
          (\<lambda>k req. Returns \<lparr>candidates = Some [\<lparr>candidate_content = Some \<lparr>parts = Some
             [\<lparr>inlineData = Some \<lparr>data = Some ''AAAA'', mimeType = Some ''image/png''\<rparr>,
               part_text = Some ''Here is your image.''\<rparr>]\<rparr>\<rparr>]\<rparr>)
          ''AAAA'' ''image/png'' ''Soft'' 50 [] [] Standard)
     = Inr \<lparr>imageUrl = Some ''data:image/png;base64,AAAA'', result_text = None\<rparr>"
  using image_part_text_ignored [of "Some ''key''"
      "\<lambda>k req. Returns \<lparr>candidates = Some [\<lparr>candidate_content = Some \<lparr>parts = Some
             [\<lparr>inlineData = Some \<lparr>data = Some ''AAAA'', mimeType = Some ''image/png''\<rparr>,
               part_text = Some ''Here is your image.''\<rparr>]\<rparr>\<rparr>]\<rparr>"
      "''AAAA''" "''image/png''" "''Soft''" 50 "[]" "[]" Standard, OF _ refl _ refl]
  by (simp add: first_parts_def generateStylizedImage_def try_generate_def interpret_response_def
      data_url_def)


section \<open>Failures of removeBackground\<close>

lemma startsWith_append: "startsWith (a @ b) a"
  by (induction a) simp_all

lemma scan_images_last:
  "scan_images url ps =
     (case last_opt (filter is_image_part ps) of None \<Rightarrow> url | Some p \<Rightarrow> part_url p)"
proof (induction ps arbitrary: url)
  case Nil
  show ?case by (simp add: last_opt_def)
next
  case (Cons p ps)
  show ?case
    by (auto simp: Cons last_opt_def is_image_part_def part_url_def split: option.splits)
qed

lemma removeBackground_thrown:
  "truthy apiKey \<Longrightarrow> service (to_string apiKey) (background_request base64Data mime) = Throws e \<Longrightarrow>
   removeBackground apiKey service base64Data mime
     = (Inl (wrap_error e), [background_request base64Data mime])"
  by (simp add: removeBackground_def)

lemma removeBackground_returned:
  assumes "truthy apiKey"
    and "service (to_string apiKey) (background_request base64Data mime) = Returns r"
  shows "removeBackground apiKey service base64Data mime
     = (case last_opt (filter is_image_part (first_parts r)) of
          None \<Rightarrow> (Inl (wrap_error (Some ''Failed to remove background.'')),
                    [background_request base64Data mime])
        | Some p \<Rightarrow> (Inr \<lparr> imageUrl = part_url p, result_text = None \<rparr>,
                     [background_request base64Data mime]))"
proof -
  have "truthy (part_url p)" if "last_opt (filter is_image_part (first_parts r)) = Some p" for p
  proof -
    from that have "p \<in> set (filter is_image_part (first_parts r))" by (rule last_opt_in_set)
    then show ?thesis by (auto simp: is_image_part_def part_url_def data_url_def)
  qed
  then show ?thesis
    using assms by (auto simp: removeBackground_def scan_images_last split: option.splits)
qed

lemma wrap_error_failed:
  "wrap_error (Some ''Failed to remove background.'')
     = ''Background removal failed: Failed to remove background.''"
  by (simp add: wrap_error_def entity_not_found_def)

text \<open>
  Claim C9, as stated, fails for the failure of the missing key: its message is neither the
  sentence of the entity that was not found nor a message of the failed background removal.
\<close>

theorem removeBackground_counterexample:
  "\<not> (\<forall>apiKey service base64Data mime msg.
        fst (removeBackground apiKey service base64Data mime) = Inl msg \<longrightarrow>
          msg = ''Requested entity was not found.'' \<or> startsWith msg ''Background removal failed: '')"
proof
  assume a: "\<forall>apiKey service base64Data mime msg.
        fst (removeBackground apiKey service base64Data mime) = Inl msg \<longrightarrow>
          msg = ''Requested entity was not found.'' \<or> startsWith msg ''Background removal failed: ''"
  have "fst (removeBackground None (\<lambda>k req. Throws None) [] []) = Inl missing_key"
    by (simp add: removeBackground_def)
  with a have "missing_key = ''Requested entity was not found.''
      \<or> startsWith missing_key ''Background removal failed: ''"
    by blast
  then show False by (simp add: missing_key_def)
qed

text \<open>
  Claim C9, amended. A failure of \<open>removeBackground\<close> inside its \<open>try\<close> block is told
  apart in one case only: an error of the service whose message has the marker of the entity
  that was not found gives the sentence of that marker. Every other error of the service,
  whatever its message (403, 400, 503 and safety signals included), gives the words
  Background removal failed, a colon and the error's message; a response without an image
  gives the same words before the message of the failed removal. The failure of the
  missing key is thrown before the \<open>try\<close> block, with its own message. No failure has
  another message.
\<close>

theorem removeBackground_failures:
  assumes "out = removeBackground apiKey service base64Data mime"
    and "req = background_request base64Data mime"
  shows "(\<not> truthy apiKey \<longrightarrow> out = (Inl missing_key, []))
       \<and> (truthy apiKey \<and> service (to_string apiKey) req = Throws e \<and> truthy e
            \<and> str_includes (to_string e) ''Requested entity was not found'' \<longrightarrow>
            out = (Inl entity_not_found_message, [req]))
       \<and> (truthy apiKey \<and> service (to_string apiKey) req = Throws e
            \<and> \<not> (truthy e \<and> str_includes (to_string e) ''Requested entity was not found'') \<longrightarrow>
            out = (Inl (''Background removal failed: '' @ to_string e), [req]))
       \<and> (truthy apiKey \<and> service (to_string apiKey) req = Returns r
            \<and> filter is_image_part (first_parts r) = [] \<longrightarrow>
            out = (Inl ''Background removal failed: Failed to remove background.'', [req]))
       \<and> (fst out = Inl msg \<longrightarrow>
            msg = missing_key \<or> msg = entity_not_found_message
            \<or> startsWith msg ''Background removal failed: '')"
proof -
  have key: "\<not> truthy apiKey \<Longrightarrow> out = (Inl missing_key, [])"
    using assms(1) by (simp add: removeBackground_def)
  have thrown: "truthy apiKey \<Longrightarrow> service (to_string apiKey) req = Throws e \<Longrightarrow>
      out = (Inl (wrap_error e), [req])" for e
    using assms by (simp add: removeBackground_thrown)
  have empty: "truthy apiKey \<Longrightarrow> service (to_string apiKey) req = Returns r \<Longrightarrow>
      filter is_image_part (first_parts r) = [] \<Longrightarrow>
      out = (Inl ''Background removal failed: Failed to remove background.'', [req])" for r
    using assms by (simp add: removeBackground_returned last_opt_def wrap_error_failed)
  have wrap_cases: "wrap_error e = entity_not_found_message
      \<or> wrap_error e = ''Background removal failed: '' @ to_string e" for e
    by (simp add: wrap_error_def entity_not_found_message_def)
  have pre: "startsWith (''Background removal failed: '' @ x) ''Background removal failed: ''" for x
    by (rule startsWith_append)
  have all: "msg = missing_key \<or> msg = entity_not_found_message
            \<or> startsWith msg ''Background removal failed: ''" if m: "fst out = Inl msg"
  proof (cases "truthy apiKey")
    case False
    with key m show ?thesis by simp
  next
    case True
    show ?thesis
    proof (cases "service (to_string apiKey) req")
      case (Throws e)
      with thrown [OF True] m have "msg = wrap_error e" by simp
      with wrap_cases [of e] pre [of "to_string e"] show ?thesis by auto
    next
      case (Returns r)
      have "out = (Inl (wrap_error (Some ''Failed to remove background.'')), [req])
            \<or> (\<exists>res. out = (Inr res, [req]))"
        using assms True Returns
        by (simp add: removeBackground_returned split: option.splits)
      with m have "msg = wrap_error (Some ''Failed to remove background.'')" by auto
      with wrap_error_failed pre [of "''Failed to remove background.''"] show ?thesis by simp
    qed
  qed
  have c2: "truthy apiKey \<and> service (to_string apiKey) req = Throws e \<and> truthy e
            \<and> str_includes (to_string e) ''Requested entity was not found'' \<longrightarrow>
            out = (Inl entity_not_found_message, [req])"
    using thrown [of e]
    by (auto simp: wrap_error_def entity_not_found_def entity_not_found_message_def)
  have c3: "truthy apiKey \<and> service (to_string apiKey) req = Throws e
            \<and> \<not> (truthy e \<and> str_includes (to_string e) ''Requested entity was not found'') \<longrightarrow>
            out = (Inl (''Background removal failed: '' @ to_string e), [req])"
    using thrown [of e]
    by (auto simp: wrap_error_def entity_not_found_def)
  show ?thesis
    using key c2 c3 empty all by blast
qed

theorem removeBackground_failures_witness:
  "removeBackground (Some ''key'') (\<lambda>k req. Throws (Some ''403 Forbidden'')) ''AAAA'' ''image/png''
     = (Inl ''Background removal failed: 403 Forbidden'', [background_request ''AAAA'' ''image/png''])
   \<and> removeBackground (Some ''key'') (\<lambda>k req. Throws (Some ''404 Requested entity was not found.''))
        ''AAAA'' ''image/png''
     = (Inl entity_not_found_message, [background_request ''AAAA'' ''image/png''])
   \<and> removeBackground (Some ''key'') (\<lambda>k req. Returns \<lparr>candidates = Some []\<rparr>) ''AAAA'' ''image/png''
     = (Inl ''Background removal failed: Failed to remove background.'',
        [background_request ''AAAA'' ''image/png''])
   \<and> removeBackground None (\<lambda>k req. Returns \<lparr>candidates = Some []\<rparr>) ''AAAA'' ''image/png''
     = (Inl missing_key, [])"
  using
    removeBackground_failures [of _ "Some ''key''" "\<lambda>k req. Throws (Some ''403 Forbidden'')"
      "''AAAA''" "''image/png''" _ "Some ''403 Forbidden''", OF refl refl]
    removeBackground_failures [of _ "Some ''key''"
      "\<lambda>k req. Throws (Some ''404 Requested entity was not found.'')"
      "''AAAA''" "''image/png''" _ "Some ''404 Requested entity was not found.''", OF refl refl]
    removeBackground_failures [of _ "Some ''key''" "\<lambda>k req. Returns \<lparr>candidates = Some []\<rparr>"
      "''AAAA''" "''image/png''" _ _ "\<lparr>candidates = Some []\<rparr>", OF refl refl]
    removeBackground_failures [of _ None "\<lambda>k req. Returns \<lparr>candidates = Some []\<rparr>"
      "''AAAA''" "''image/png''", OF refl refl]
  by (simp add: first_parts_def)


section \<open>The history of generated images\<close>

lemma take_append_take: "take n (xs @ take n ys) = take n (xs @ ys)"
  by (simp add: min_def)

lemma record_all_take:
  "list_all successful gens \<Longrightarrow>
   record_all prev gens = (if gens = [] then prev else take 4 (rev (map new_image gens) @ prev))"
proof (induction gens arbitrary: prev)
  case Nil
  show ?case by simp
next
  case (Cons g gens)
  have step: "record_result (id_time g) (stamp_time g) (prompt_at g) (genResult g) prev
      = take 4 (new_image g # prev)"
    using Cons.prems by (simp add: record_result_def add_image_def new_image_def successful_def)
  have "take 4 (rev (map new_image gens) @ take 4 (new_image g # prev))
      = take 4 (rev (map new_image gens) @ new_image g # prev)"
    by (rule take_append_take)
  then show ?case
    using Cons by (simp add: step del: take_Cons_numeral)
qed

text \<open>
  Claim C8. From a history of at most 4 entries, after any sequence of successful
  generations the history has at most 4 entries and is the first 4 of the generations,
  newest first, followed by the old entries: the newest generation stands at the front.
  One update of a full history drops its oldest (last) entry; one of a shorter history
  keeps them all.
\<close>

theorem history_bounded:
  assumes "length prev \<le> 4" and "list_all successful gens"
  shows "length (record_all prev gens) \<le> 4
       \<and> record_all prev gens = take 4 (rev (map new_image gens) @ prev)
       \<and> (gens \<noteq> [] \<longrightarrow> hd (record_all prev gens) = new_image (last gens))
       \<and> (length prev = 4 \<longrightarrow> add_image img prev = img # butlast prev)
       \<and> (length prev < 4 \<longrightarrow> add_image img prev = img # prev)"
proof -
  have eq: "record_all prev gens = take 4 (rev (map new_image gens) @ prev)"
    using assms by (simp add: record_all_take)
  have hd: "hd (record_all prev gens) = new_image (last gens)" if "gens \<noteq> []"
  proof -
    from that obtain gs g where gens: "gens = gs @ [g]" by (cases gens rule: rev_cases) auto
    have "record_all prev gens = take 4 (new_image g # rev (map new_image gs) @ prev)"
      unfolding eq by (simp add: gens)
    then show ?thesis by (simp add: gens)
  qed
  have evict: "add_image img prev = img # butlast prev" if "length prev = 4"
    using that by (simp add: add_image_def butlast_conv_take)
  have keep: "add_image img prev = img # prev" if "length prev < 4"
    using that by (simp add: add_image_def)
  show ?thesis
    using eq hd evict keep by simp
qed


theorem history_bounded_witness:
  "record_all
     [\<lparr>image_id = ''4'', image_url = ''u4'', timestamp = 4, promptUsed = ''p''\<rparr>,
      \<lparr>image_id = ''3'', image_url = ''u3'', timestamp = 3, promptUsed = ''p''\<rparr>,
      \<lparr>image_id = ''2'', image_url = ''u2'', timestamp = 2, promptUsed = ''p''\<rparr>,
      \<lparr>image_id = ''1'', image_url = ''u1'', timestamp = 1, promptUsed = ''p''\<rparr>]
     [\<lparr>id_time = 5, stamp_time = 5, prompt_at = ''p'',
        genResult = \<lparr>imageUrl = Some ''u5'', result_text = None\<rparr>\<rparr>,
      \<lparr>id_time = 6, stamp_time = 7, prompt_at = ''q'',
        genResult = \<lparr>imageUrl = Some ''u6'', result_text = Some ''done''\<rparr>\<rparr>]
   = [\<lparr>image_id = ''6'', image_url = ''u6'', timestamp = 7, promptUsed = ''q''\<rparr>,
      \<lparr>image_id = ''5'', image_url = ''u5'', timestamp = 5, promptUsed = ''p''\<rparr>,
      \<lparr>image_id = ''4'', image_url = ''u4'', timestamp = 4, promptUsed = ''p''\<rparr>,
      \<lparr>image_id = ''3'', image_url = ''u3'', timestamp = 3, promptUsed = ''p''\<rparr>]"
  using history_bounded [of
     "[\<lparr>image_id = ''4'', image_url = ''u4'', timestamp = 4, promptUsed = ''p''\<rparr>,
      \<lparr>image_id = ''3'', image_url = ''u3'', timestamp = 3, promptUsed = ''p''\<rparr>,
      \<lparr>image_id = ''2'', image_url = ''u2'', timestamp = 2, promptUsed = ''p''\<rparr>,
      \<lparr>image_id = ''1'', image_url = ''u1'', timestamp = 1, promptUsed = ''p''\<rparr>]"
     "[\<lparr>id_time = 5, stamp_time = 5, prompt_at = ''p'',
        genResult = \<lparr>imageUrl = Some ''u5'', result_text = None\<rparr>\<rparr>,
      \<lparr>id_time = 6, stamp_time = 7, prompt_at = ''q'',
        genResult = \<lparr>imageUrl = Some ''u6'', result_text = Some ''done''\<rparr>\<rparr>]"]
  by (simp add: successful_def new_image_def show_int_def show_nat.simps digit_def)


section \<open>The round trip of an image\<close>

lemma split_from_Nil: "split_from sep acc [] = [acc]"
  by (subst split_from.simps) simp

lemma split_from_Cons:
  "split_from sep acc (c # s) =
     (if sep \<noteq> [] \<and> startsWith (c # s) sep
      then acc # split_from sep [] (drop (length sep) (c # s))
      else split_from sep (acc @ [c]) s)"
  by (subst split_from.simps) simp

lemma startsWith_take: "startsWith s sub \<longleftrightarrow> length sub \<le> length s \<and> take (length sub) s = sub"
  by (induction s sub rule: startsWith.induct) auto

lemma startsWith_set: "startsWith s sub \<Longrightarrow> set sub \<subseteq> set s"
proof -
  assume "startsWith s sub"
  then have "take (length sub) s = sub" by (simp add: startsWith_take)
  then have "set sub = set (take (length sub) s)" by simp
  then show ?thesis using set_take_subset [of "length sub" s] by simp
qed

lemma str_includes_set: "str_includes s sub \<Longrightarrow> set sub \<subseteq> set s"
proof (induction s)
  case Nil
  then show ?case by simp
next
  case (Cons c s)
  then show ?case using startsWith_set [of "c # s" sub] by auto
qed

lemma str_includes_append: "str_includes (pre @ sep @ rest) sep"
proof (induction pre)
  case Nil
  show ?case
    using startsWith_append [of sep rest] by (cases "sep @ rest") auto
next
  case (Cons c pre)
  then show ?case by simp
qed

lemma split_from_none:
  "\<not> str_includes s sep \<Longrightarrow> split_from sep acc s = [acc @ s]"
proof (induction s arbitrary: acc)
  case Nil
  show ?case by (simp add: split_from_Nil)
next
  case (Cons c s)
  then show ?case by (simp add: split_from_Cons)
qed

lemma split_from_first:
  assumes "sep \<noteq> []" and "\<not> str_includes (pre @ butlast sep) sep"
  shows "split_from sep acc (pre @ sep @ rest) = (acc @ pre) # split_from sep [] rest"
  using assms(2)
proof (induction pre arbitrary: acc)
  case Nil
  obtain c s where cs: "sep @ rest = c # s" using assms(1) by (cases "sep @ rest") auto
  have "startsWith (c # s) sep" using startsWith_append [of sep rest] by (simp add: cs)
  moreover have "drop (length sep) (c # s) = rest" using cs [symmetric] by simp
  ultimately show ?case
    using assms(1) by (simp add: cs split_from_Cons)
next
  case (Cons c pre)
  have no: "\<not> startsWith (c # pre @ butlast sep) sep" and rest: "\<not> str_includes (pre @ butlast sep) sep"
    using Cons.prems by simp_all
  define x where "x = c # pre @ butlast sep"
  have len: "length sep \<le> length x" by (simp add: x_def)
  have eq: "c # pre @ sep @ rest = x @ (last sep # rest)"
    using assms(1) by (simp add: x_def)
  have "take (length sep) (x @ (last sep # rest)) = take (length sep) x"
    using len by simp
  then have "take (length sep) (c # pre @ sep @ rest) = take (length sep) (c # pre @ butlast sep)"
    by (simp only: eq x_def)
  with no have "\<not> startsWith (c # pre @ sep @ rest) sep"
    by (simp add: startsWith_take)
  then show ?case
    using Cons.IH [OF rest] by (simp add: split_from_Cons)
qed

lemma base64_char_no_comma: "\<not> base64_char (CHR '','')"
  by (simp add: base64_char_def)

lemma base64_no_comma: "is_base64 s \<Longrightarrow> CHR '','' \<notin> set s"
  using base64_char_no_comma by (auto simp: is_base64_def list_all_iff)

lemma no_comma_no_prefix: "CHR '','' \<notin> set s \<Longrightarrow> \<not> str_includes s ''base64,''"
  using str_includes_set [of s "''base64,''"] by auto

lemma cleanBase64_raw: "is_base64 payload \<Longrightarrow> cleanBase64 payload = Some payload"
  by (simp add: cleanBase64_def no_comma_no_prefix base64_no_comma)

lemma cleanBase64_prefixed:
  assumes "is_base64 payload" and "\<not> str_includes (pre @ ''base64'') ''base64,''"
  shows "cleanBase64 (pre @ ''base64,'' @ payload) = Some payload"
proof -
  have inc: "str_includes (pre @ ''base64,'' @ payload) ''base64,''"
    by (rule str_includes_append)
  have "split_from ''base64,'' [] (pre @ ''base64,'' @ payload) = pre # split_from ''base64,'' [] payload"
    using split_from_first [of "''base64,''" pre "[]" payload] assms(2) by simp
  also have "split_from ''base64,'' [] payload = [payload]"
    using assms(1) by (simp add: split_from_none no_comma_no_prefix base64_no_comma)
  finally show ?thesis
    using inc by (simp add: cleanBase64_def split_def)
qed


text \<open>
  Claim C6. For a payload in base64, given as it is or after a prefix that ends with its
  first \<open>base64,\<close> (a data URL), the request carries the payload alone. With the mime
  type image/png and a service that sends the image of the request back as an inline image
  part, the result has the image URL made of \<open>data:image/png;base64,\<close> and the same
  payload, and no text.
\<close>

theorem round_trip:
  assumes "is_base64 payload"
    and "\<not> str_includes (pre @ ''base64'') ''base64,''"
    and "input = payload \<or> input = pre @ ''base64,'' @ payload"
    and "truthy apiKey"
  shows "request_data (build_request input ''image/png'' prompt influence characterDescription
           sceneAction q) = Some payload
       \<and> fst (generateStylizedImage apiKey echo_service input ''image/png'' prompt influence
                characterDescription sceneAction q)
           = Inr \<lparr>imageUrl = Some (''data:image/png;base64,'' @ payload), result_text = None\<rparr>"
proof -
  have clean: "cleanBase64 input = Some payload"
    using assms(1,2,3) cleanBase64_raw cleanBase64_prefixed by blast
  then have sent: "request_data (build_request input ''image/png'' prompt influence
      characterDescription sceneAction q) = Some payload"
    by (simp add: build_request_def)
  have "interpret_response
          \<lparr>candidates = Some [\<lparr>candidate_content = Some \<lparr>parts = Some
             [\<lparr>inlineData = Some \<lparr>data = Some payload, mimeType = Some ''image/png''\<rparr>,
               part_text = None\<rparr>]\<rparr>\<rparr>]\<rparr>
        = Inr \<lparr>imageUrl = Some (''data:image/png;base64,'' @ payload), result_text = None\<rparr>"
    by (simp add: interpret_response_def first_parts_def data_url_def)
  then have "fst (generateStylizedImage apiKey echo_service input ''image/png'' prompt influence
                characterDescription sceneAction q)
           = Inr \<lparr>imageUrl = Some (''data:image/png;base64,'' @ payload), result_text = None\<rparr>"
    using assms(4) sent
    by (simp add: generate_returns [where r = "\<lparr>candidates = Some [\<lparr>candidate_content = Some \<lparr>parts = Some
             [\<lparr>inlineData = Some \<lparr>data = Some payload, mimeType = Some ''image/png''\<rparr>,
               part_text = None\<rparr>]\<rparr>\<rparr>]\<rparr>"] echo_service_def build_request_def)
  with sent show ?thesis by simp
qed

theorem round_trip_witness:
  "request_data (build_request ''data:image/png;base64,iVBORw0KGgo='' ''image/png'' ''Soft'' 50 [] []
       Standard) = Some ''iVBORw0KGgo=''
   \<and> fst (generateStylizedImage (Some ''key'') echo_service ''data:image/png;base64,iVBORw0KGgo=''
            ''image/png'' ''Soft'' 50 [] [] Standard)
       = Inr \<lparr>imageUrl = Some ''data:image/png;base64,iVBORw0KGgo='', result_text = None\<rparr>"
  using round_trip [of "''iVBORw0KGgo=''" "''data:image/png;''" "''data:image/png;base64,iVBORw0KGgo=''"
      "Some ''key''" "''Soft''" 50 "[]" "[]" Standard]
  by (simp add: is_base64_def base64_char_def)

end
